theory Spec2Isabelle
  imports Main
begin

section \<open>The webhook delivery\<close>

text \<open>
  The handler of \<^verbatim>\<open>bot_scripts/assign-to-bounty-awaiting-for-approval.js\<close> reads a
  few fields of the delivery: the repository owner and name, the label that was added or
  removed, and the issue with its labels. Identifiers are GitHub's numbers, names and
  URLs are strings.
\<close>

record label =
  label_name :: string

record issue =
  issue_id :: nat
  issue_number :: nat
  issue_url :: string
  issue_html_url :: string
  issue_labels :: "label list"

record payload =
  owner_login :: string
  repository_name :: string
  payload_label :: label
  payload_issue :: issue

record webhook_context =
  isBot :: bool
  payload :: payload

section \<open>Configuration\<close>

text \<open>
  \<^verbatim>\<open>projectBoardConfig['...']\<close> is \<^verbatim>\<open>undefined\<close> for a key the file does not have, so
  each key of the \<^verbatim>\<open>bounty-project-board\<close> section is optional. The section itself may be
  absent, and so may the whole configuration. The same holds along the path
  \<^verbatim>\<open>config.slack.notification.room\<close>: the \<^verbatim>\<open>slack\<close> section, its \<^verbatim>\<open>notification\<close> section and
  the \<^verbatim>\<open>room\<close> key may each be missing.
\<close>

record project_board_config =
  board_name :: "string option"
  awaiting_approval_label_name :: "string option"
  awaiting_approval_column_name :: "string option"
  bounty_label_name :: "string option"

record notification_config =
  room :: "string option"

record slack_config =
  notification :: "notification_config option"

record config =
  bounty_project_board :: "project_board_config option"
  slack :: "slack_config option"

section \<open>The remote project board\<close>

record project =
  project_id :: nat
  project_name :: string

record column =
  column_id :: nat
  column_name :: string

record card =
  card_id :: nat
  card_url :: string
  card_content_url :: string

text \<open>A rejected promise: the value carries what \<^verbatim>\<open>${err}\<close> renders.\<close>

datatype err = Err string

fun err_text :: "err \<Rightarrow> string" where
  "err_text (Err s) = s"

section \<open>The world a delivery is handled in\<close>

text \<open>
  Everything the handler reads from outside itself: the two environment flags, the
  module-level \<^verbatim>\<open>slackClient\<close> (\<^verbatim>\<open>null\<close> until the connection callback has run), and the
  answer of each remote call, \<open>Inl\<close> when the call fails.
\<close>

record world =
  DRY_RUN :: "string option"
  DRY_RUN_BOUNTY_APPROVAL :: "string option"
  slackClient :: "nat option"
  getConfig :: "err + config option"
  getOrgProjects :: "string \<Rightarrow> string \<Rightarrow> err + project list"
  getProjectColumns :: "nat \<Rightarrow> err + column list"
  createProjectCard :: "nat \<Rightarrow> string \<Rightarrow> nat \<Rightarrow> err + card"
  listProjectCards :: "nat \<Rightarrow> err + card list"
  deleteProjectCard :: "nat \<Rightarrow> err + unit"

text \<open>An environment variable is truthy when it is set to a non-empty string.\<close>

fun truthy :: "string option \<Rightarrow> bool" where
  "truthy None = False"
| "truthy (Some s) = (s \<noteq> [])"

section \<open>Observable effects\<close>

datatype log_level = LogDefault | LogTrace | LogDebug | LogInfo | LogError

datatype log_arg = S string | N nat

datatype effect =
    LoadConfig
  | GetOrgProjects string string
  | GetProjectColumns nat
  | CreateProjectCard nat string nat
  | ListProjectCards nat
  | DeleteProjectCard nat
  | Log log_level string "log_arg list"
  | SendMessage "nat option" "string option" string

text \<open>
  How the \<^verbatim>\<open>async\<close> handler ends: it completes, it rejects with the error of an awaited
  call, or it rejects with the \<^verbatim>\<open>TypeError\<close> of reading the named property of
  \<^verbatim>\<open>undefined\<close>.
\<close>

datatype outcome = Completed | Rejected err | TypeError string

fun is_board_call :: "effect \<Rightarrow> bool" where
  "is_board_call (GetOrgProjects _ _) = True"
| "is_board_call (GetProjectColumns _) = True"
| "is_board_call (CreateProjectCard _ _ _) = True"
| "is_board_call (ListProjectCards _) = True"
| "is_board_call (DeleteProjectCard _) = True"
| "is_board_call _ = False"

fun is_card_mutation :: "effect \<Rightarrow> bool" where
  "is_card_mutation (CreateProjectCard _ _ _) = True"
| "is_card_mutation (DeleteProjectCard _) = True"
| "is_card_mutation _ = False"

fun is_column_fetch :: "effect \<Rightarrow> bool" where
  "is_column_fetch (GetProjectColumns _) = True"
| "is_column_fetch _ = False"

fun is_notification :: "effect \<Rightarrow> bool" where
  "is_notification (SendMessage _ _ _) = True"
| "is_notification _ = False"

fun is_error_log :: "effect \<Rightarrow> bool" where
  "is_error_log (Log LogError _ _) = True"
| "is_error_log _ = False"

section \<open>Template strings\<close>

fun string_of_nat :: "nat \<Rightarrow> string" where
  "string_of_nat n =
     (if n < 10 then [''0123456789'' ! n]
      else string_of_nat (n div 10) @ [''0123456789'' ! (n mod 10)])"

declare string_of_nat.simps [simp del]

text \<open>A configuration key that is absent renders as \<^verbatim>\<open>undefined\<close>.\<close>

fun tmpl :: "string option \<Rightarrow> string" where
  "tmpl None = ''undefined''"
| "tmpl (Some s) = s"

section \<open>The handler\<close>

text \<open>
  Modelled from the spec: \<^verbatim>\<open>gitHubHelpers.getProjectCardForIssue\<close> lives in
  \<^verbatim>\<open>lib/github-helpers\<close>, whose source is not available. The specification
  describes it as listing the cards of the column and matching one whose referenced
  issue URL equals the issue's URL; a failure of the listing is thrown to the caller.
\<close>

definition getProjectCardForIssue ::
  "world \<Rightarrow> nat \<Rightarrow> string \<Rightarrow> effect list \<times> (err + card option)" where
  "getProjectCardForIssue w columnId issueUrl =
     ([ListProjectCards columnId],
      case listProjectCards w columnId of
        Inl e \<Rightarrow> Inl e
      | Inr cards \<Rightarrow> Inr (find (\<lambda>c. card_content_url c = issueUrl) cards))"

text \<open>
  Lines 71 to 109: the two lookups. The result is the column, or \<open>None\<close> where the
  source returns from the handler.
\<close>

definition fetch_column ::
  "world \<Rightarrow> project_board_config \<Rightarrow> string \<Rightarrow> string \<Rightarrow> effect list \<times> column option" where
  "fetch_column w projectBoardConfig ownerName repoName =
     (let projectBoardName = board_name projectBoardConfig;
          approvalColumnName = awaiting_approval_column_name projectBoardConfig;
          orgName = ownerName
      in case getOrgProjects w orgName ''open'' of
           Inl e \<Rightarrow>
             ([GetOrgProjects orgName ''open'',
               Log LogError (''Couldn't fetch the github projects for repo: '' @ err_text e)
                 [S ownerName, S repoName]], None)
         | Inr projects \<Rightarrow>
             (case find (\<lambda>p. Some (project_name p) = projectBoardName) projects of
                None \<Rightarrow>
                  ([GetOrgProjects orgName ''open'',
                    Log LogError (''Couldn't find project '' @ tmpl projectBoardName @ '' in ''
                      @ orgName @ '' org'') []], None)
              | Some project \<Rightarrow>
                  (case getProjectColumns w (project_id project) of
                     Inl e \<Rightarrow>
                       ([GetOrgProjects orgName ''open'',
                         Log LogDebug (''Fetched '' @ project_name project @ '' project (''
                           @ string_of_nat (project_id project) @ '')'') [],
                         GetProjectColumns (project_id project),
                         Log LogError
                           (''Couldn't fetch the github columns for project: '' @ err_text e)
                           [S ownerName, S repoName, N (project_id project)]], None)
                   | Inr columns \<Rightarrow>
                       (case find (\<lambda>c. Some (column_name c) = approvalColumnName) columns of
                          None \<Rightarrow>
                            ([GetOrgProjects orgName ''open'',
                              Log LogDebug (''Fetched '' @ project_name project @ '' project (''
                                @ string_of_nat (project_id project) @ '')'') [],
                              GetProjectColumns (project_id project),
                              Log LogError (''Couldn't find '' @ tmpl approvalColumnName
                                @ '' column in project '' @ project_name project) []], None)
                        | Some column \<Rightarrow>
                            ([GetOrgProjects orgName ''open'',
                              Log LogDebug (''Fetched '' @ project_name project @ '' project (''
                                @ string_of_nat (project_id project) @ '')'') [],
                              GetProjectColumns (project_id project),
                              Log LogDebug (''Fetched '' @ column_name column @ '' column (''
                                @ string_of_nat (column_id column) @ '')'') []],
                             Some column)))))"

text \<open>
  Lines 114 to 146: the card step. Each remote failure is caught and logged; no branch
  returns from the handler.
\<close>

definition sync_card :: "world \<Rightarrow> column \<Rightarrow> payload \<Rightarrow> bool \<Rightarrow> effect list" where
  "sync_card w column pl assign =
     (if truthy (DRY_RUN w) then
        (if assign then
           [Log LogInfo ''Would have created card for issue''
              [N (column_id column), N (issue_id (payload_issue pl))]]
         else
           [Log LogInfo ''Would have deleted card for issue''
              [N (column_id column), N (issue_id (payload_issue pl))]])
      else if assign then
        CreateProjectCard (column_id column) ''Issue'' (issue_id (payload_issue pl)) #
        (case createProjectCard w (column_id column) ''Issue'' (issue_id (payload_issue pl)) of
           Inr ghcard \<Rightarrow>
             [Log LogDefault (''Created card: '' @ card_url ghcard) [N (card_id ghcard)]]
         | Inl e \<Rightarrow>
             [Log LogError (''Couldn't create project card for the issue: '' @ err_text e)
                [N (column_id column), N (issue_id (payload_issue pl))]])
      else
        (case getProjectCardForIssue w (column_id column) (issue_url (payload_issue pl)) of
           (es, Inl e) \<Rightarrow>
             es @ [Log LogError (''Couldn't delete project card for the issue: '' @ err_text e)
                     [N (column_id column), N (issue_id (payload_issue pl))]]
         | (es, Inr None) \<Rightarrow> es
         | (es, Inr (Some ghcard)) \<Rightarrow>
             es @ DeleteProjectCard (card_id ghcard) #
             (case deleteProjectCard w (card_id ghcard) of
                Inr _ \<Rightarrow>
                  [Log LogDefault (''Deleted card: '' @ card_url ghcard) [N (card_id ghcard)]]
              | Inl e \<Rightarrow>
                  [Log LogError (''Couldn't delete project card for the issue: '' @ err_text e)
                     [N (column_id column), N (issue_id (payload_issue pl))]])))"

text \<open>Lines 148 to 158: the three message variants.\<close>

definition compose_message ::
  "bool \<Rightarrow> bool \<Rightarrow> string option \<Rightarrow> string option \<Rightarrow> string \<Rightarrow> string" where
  "compose_message assign isOfficialBounty approvalColumnName projectBoardName html_url =
     (if assign then
        ''Assigned issue to '' @ tmpl approvalColumnName @ '' in '' @ tmpl projectBoardName
          @ '' project'' @ [CHR 0x0A] @ html_url
      else if isOfficialBounty then
        html_url @ '' has been approved as an official bounty!''
      else
        ''Unassigned issue from '' @ tmpl approvalColumnName @ '' in '' @ tmpl projectBoardName
          @ '' project'' @ [CHR 0x0A] @ html_url)"

text \<open>
  The argument \<^verbatim>\<open>config.slack.notification.room\<close> of line 162. Reading
  \<^verbatim>\<open>notification\<close> of a missing \<^verbatim>\<open>slack\<close> section, or \<^verbatim>\<open>room\<close> of a missing
  \<^verbatim>\<open>notification\<close> section, throws (\<open>Inl\<close> names the property that was read); a missing
  \<^verbatim>\<open>room\<close> key yields \<^verbatim>\<open>undefined\<close>.
\<close>

definition slack_notification_room :: "config \<Rightarrow> string + string option" where
  "slack_notification_room cfg =
     (case slack cfg of
        None \<Rightarrow> Inl ''notification''
      | Some s \<Rightarrow>
          (case notification s of
             None \<Rightarrow> Inl ''room''
           | Some n \<Rightarrow> Inr (room n)))"

text \<open>
  Lines 160 to 163: the send, behind the second flag. The arguments are evaluated before
  the call and outside any \<^verbatim>\<open>try\<close>, so a throw there rejects the handler and no message
  is handed to the chat helper.
\<close>

definition send_notification :: "world \<Rightarrow> config \<Rightarrow> string \<Rightarrow> effect list \<times> outcome" where
  "send_notification w cfg message =
     (if message \<noteq> [] \<and> \<not> truthy (DRY_RUN_BOUNTY_APPROVAL w) then
        (case slack_notification_room cfg of
           Inl p \<Rightarrow> ([], TypeError p)
         | Inr r \<Rightarrow> ([SendMessage (slackClient w) r message], Completed))
      else ([], Completed))"

text \<open>
  The handler itself. It yields the effects in the order they happen, and whether the
  \<^verbatim>\<open>async\<close> function completes or rejects. Two places lie outside every \<^verbatim>\<open>try\<close>: the
  awaited configuration load of line 49 and the send of line 162.
\<close>

definition assignIssueToBountyAwaitingForApproval ::
  "world \<Rightarrow> webhook_context \<Rightarrow> bool \<Rightarrow> effect list \<times> outcome" where
  "assignIssueToBountyAwaitingForApproval w ctx assign =
     (let pl = payload ctx;
          ownerName = owner_login pl;
          repoName = repository_name pl
      in case getConfig w of
           Inl e \<Rightarrow> ([LoadConfig], Rejected e)
         | Inr None \<Rightarrow> ([LoadConfig], Completed)
         | Inr (Some cfg) \<Rightarrow>
             (case bounty_project_board cfg of
                None \<Rightarrow> ([LoadConfig], Completed)
              | Some projectBoardConfig \<Rightarrow>
                  (let watchedLabelName = awaiting_approval_label_name projectBoardConfig
                   in if Some (label_name (payload_label pl)) \<noteq> watchedLabelName then
                        ([LoadConfig,
                          Log LogDebug (''assignIssueToBountyAwaitingForApproval - ''
                            @ label_name (payload_label pl) @ '' doesn't match watched ''
                            @ tmpl watchedLabelName @ '' label. Ignoring'') []], Completed)
                      else
                        (let handling =
                               Log LogDefault (''assignIssueToBountyAwaitingForApproval - Handling ''
                                 @ (if assign then ''labeling'' else ''unlabeling'') @ '' of #''
                                 @ string_of_nat (issue_number (payload_issue pl)) @ '' with ''
                                 @ label_name (payload_label pl) @ '' on repo ''
                                 @ ownerName @ ''/'' @ repoName) [];
                             projectBoardName = board_name projectBoardConfig;
                             approvalColumnName = awaiting_approval_column_name projectBoardConfig
                         in case fetch_column w projectBoardConfig ownerName repoName of
                              (es, None) \<Rightarrow> (LoadConfig # handling # es, Completed)
                            | (es, Some column) \<Rightarrow>
                                (let bountyLabelName = bounty_label_name projectBoardConfig;
                                     isOfficialBounty =
                                       (find (\<lambda>l. Some (label_name l) = bountyLabelName)
                                          (issue_labels (payload_issue pl)) \<noteq> None);
                                     message = compose_message assign isOfficialBounty
                                       approvalColumnName projectBoardName
                                       (issue_html_url (payload_issue pl));
                                     sent = send_notification w cfg message
                                 in (LoadConfig # handling # es
                                       @ sync_card w column pl assign
                                       @ fst sent,
                                     snd sent))))))"

text \<open>
  Lines 22 to 43: the connection callback stores the chat client, and the two
  subscriptions drop deliveries that the bot itself caused.
\<close>

definition slack_connected :: "world \<Rightarrow> nat \<Rightarrow> effect list \<times> world" where
  "slack_connected w client =
     ([Log LogTrace ''Connected, assigned slackClient'' []], w\<lparr>slackClient := Some client\<rparr>)"

datatype webhook_event = IssuesLabeled | IssuesUnlabeled

fun robot_on :: "world \<Rightarrow> webhook_event \<Rightarrow> webhook_context \<Rightarrow> effect list \<times> outcome" where
  "robot_on w IssuesLabeled ctx =
     (if isBot ctx then ([], Completed)
      else assignIssueToBountyAwaitingForApproval w ctx True)"
| "robot_on w IssuesUnlabeled ctx =
     (if isBot ctx then ([], Completed)
      else assignIssueToBountyAwaitingForApproval w ctx False)"

section \<open>Deliveries that reach the card step\<close>

text \<open>
  A delivery passes the filter and the two lookups when the configuration \<open>cfg\<close> has a
  board section \<open>pbc\<close> naming the board \<open>bn\<close> and the column \<open>cn\<close>, the changed label
  is the watched one, and the lookups of lines 71 to 109 end with the column \<open>col\<close>.
\<close>

definition resolved ::
  "world \<Rightarrow> webhook_context \<Rightarrow> config \<Rightarrow> project_board_config \<Rightarrow> string \<Rightarrow> string \<Rightarrow> column \<Rightarrow> bool" where
  "resolved w ctx cfg pbc bn cn col =
     (getConfig w = Inr (Some cfg) \<and> bounty_project_board cfg = Some pbc \<and>
      awaiting_approval_label_name pbc = Some (label_name (payload_label (payload ctx))) \<and>
      board_name pbc = Some bn \<and> awaiting_approval_column_name pbc = Some cn \<and>
      snd (fetch_column w pbc (owner_login (payload ctx)) (repository_name (payload ctx))) = Some col)"

section \<open>A sample delivery\<close>

text \<open>
  The configuration, issue and board of the specification's example: issue 42 of
  \<^verbatim>\<open>org/proj\<close>, the board "Status SOB Swarm" (listed twice, after an unrelated board) and
  the column "bounty-awaiting-approval" (also listed twice).
\<close>

definition example_board_config :: project_board_config where
  "example_board_config =
     \<lparr>board_name = Some ''Status SOB Swarm'',
      awaiting_approval_label_name = Some ''bounty-awaiting-approval'',
      awaiting_approval_column_name = Some ''bounty-awaiting-approval'',
      bounty_label_name = Some ''bounty''\<rparr>"

definition example_config :: config where
  "example_config =
     \<lparr>bounty_project_board = Some example_board_config,
      slack = Some \<lparr>notification = Some \<lparr>room = Some ''status-probot''\<rparr>\<rparr>\<rparr>"

definition example_context :: "string \<Rightarrow> label list \<Rightarrow> webhook_context" where
  "example_context changed ls =
     \<lparr>isBot = False,
      payload =
        \<lparr>owner_login = ''org'', repository_name = ''proj'',
         payload_label = \<lparr>label_name = changed\<rparr>,
         payload_issue =
           \<lparr>issue_id = 101, issue_number = 42,
            issue_url = ''https://api.github.com/repos/org/proj/issues/42'',
            issue_html_url = ''https://github.com/org/proj/issues/42'',
            issue_labels = ls\<rparr>\<rparr>\<rparr>"

definition example_world ::
  "string option \<Rightarrow> string option \<Rightarrow> project list \<Rightarrow> err + card \<Rightarrow> card list \<Rightarrow> world" where
  "example_world dry dryApproval boards created cards =
     \<lparr>DRY_RUN = dry, DRY_RUN_BOUNTY_APPROVAL = dryApproval, slackClient = Some 1,
      getConfig = Inr (Some example_config),
      getOrgProjects = (\<lambda>org state. Inr boards),
      getProjectColumns = (\<lambda>pid.
        if pid = 5 then
          Inr [\<lparr>column_id = 50, column_name = ''backlog''\<rparr>,
               \<lparr>column_id = 51, column_name = ''bounty-awaiting-approval''\<rparr>,
               \<lparr>column_id = 52, column_name = ''bounty-awaiting-approval''\<rparr>]
        else Inr []),
      createProjectCard = (\<lambda>cid ctype content. created),
      listProjectCards = (\<lambda>cid. Inr cards),
      deleteProjectCard = (\<lambda>cid. Inr ())\<rparr>"

definition example_boards :: "project list" where
  "example_boards =
     [\<lparr>project_id = 3, project_name = ''Roadmap''\<rparr>,
      \<lparr>project_id = 5, project_name = ''Status SOB Swarm''\<rparr>,
      \<lparr>project_id = 6, project_name = ''Status SOB Swarm''\<rparr>]"


text \<open>
  A board where the first board of the configured name has no column of the configured
  name and the second one has.
\<close>

definition example_world_column_on_second_board :: world where
  "example_world_column_on_second_board =
     (example_world None None example_boards (Inl (Err ''unused'')) [])
       \<lparr>getProjectColumns := (\<lambda>pid.
          if pid = 6 then Inr [\<lparr>column_id = 61, column_name = ''bounty-awaiting-approval''\<rparr>]
          else Inr [\<lparr>column_id = 50, column_name = ''backlog''\<rparr>])\<rparr>"

text \<open>The same delivery with another set of labels on the issue.\<close>

definition with_issue_labels :: "webhook_context \<Rightarrow> label list \<Rightarrow> webhook_context" where
  "with_issue_labels ctx ls =
     ctx\<lparr>payload := (payload ctx)\<lparr>payload_issue := (payload_issue (payload ctx))\<lparr>issue_labels := ls\<rparr>\<rparr>\<rparr>"

section \<open>Facts about the parts of the handler\<close>

lemmas ex_defs = example_board_config_def example_config_def example_context_def
  example_world_def example_boards_def

lemma find_Some_holds: "find P xs = Some x \<Longrightarrow> P x"
  by (induction xs) (auto split: if_splits)

lemma fetch_column_no_card_mutation:
  "fetch_column w pbc owner repo = (es, r) \<Longrightarrow> filter is_card_mutation es = []"
  by (auto simp add: fetch_column_def Let_def split: sum.splits option.splits)

lemma fetch_column_no_notification:
  "fetch_column w pbc owner repo = (es, r) \<Longrightarrow> filter is_notification es = []"
  by (auto simp add: fetch_column_def Let_def split: sum.splits option.splits)

lemma fetch_column_Some_no_error_log:
  "fetch_column w pbc owner repo = (es, Some col) \<Longrightarrow> filter is_error_log es = []"
  by (auto simp add: fetch_column_def Let_def split: sum.splits option.splits)

lemma fetch_column_Some_names:
  "fetch_column w pbc owner repo = (es, Some col) \<Longrightarrow>
   Some (column_name col) = awaiting_approval_column_name pbc \<and>
   (\<exists>p::project. Some (project_name p) = board_name pbc)"
  by (auto simp add: fetch_column_def Let_def split: sum.splits option.splits
      dest!: find_Some_holds)

lemma handler_resolved:
  assumes "resolved w ctx cfg pbc bn cn col"
  shows "assignIssueToBountyAwaitingForApproval w ctx assign =
     (LoadConfig #
      Log LogDefault (''assignIssueToBountyAwaitingForApproval - Handling ''
         @ (if assign then ''labeling'' else ''unlabeling'') @ '' of #''
         @ string_of_nat (issue_number (payload_issue (payload ctx))) @ '' with ''
         @ label_name (payload_label (payload ctx)) @ '' on repo ''
         @ owner_login (payload ctx) @ ''/'' @ repository_name (payload ctx)) [] #
      fst (fetch_column w pbc (owner_login (payload ctx)) (repository_name (payload ctx)))
      @ sync_card w col (payload ctx) assign
      @ fst (send_notification w cfg
          (compose_message assign
             (find (\<lambda>l. Some (label_name l) = bounty_label_name pbc)
                (issue_labels (payload_issue (payload ctx))) \<noteq> None)
             (Some cn) (Some bn) (issue_html_url (payload_issue (payload ctx))))),
      snd (send_notification w cfg
          (compose_message assign
             (find (\<lambda>l. Some (label_name l) = bounty_label_name pbc)
                (issue_labels (payload_issue (payload ctx))) \<noteq> None)
             (Some cn) (Some bn) (issue_html_url (payload_issue (payload ctx))))))"
proof -
  from assms obtain es where
    "fetch_column w pbc (owner_login (payload ctx)) (repository_name (payload ctx)) = (es, Some col)"
    by (cases "fetch_column w pbc (owner_login (payload ctx)) (repository_name (payload ctx))")
       (simp add: resolved_def)
  with assms show ?thesis
    by (simp add: resolved_def assignIssueToBountyAwaitingForApproval_def Let_def)
qed

lemma compose_message_nonempty: "compose_message a b c d u \<noteq> []"
  by (simp add: compose_message_def)

lemma sync_card_no_notification: "filter is_notification (sync_card w col pl assign) = []"
  by (simp add: sync_card_def getProjectCardForIssue_def split: sum.split option.split)

lemma sync_card_dry_run:
  "truthy (DRY_RUN w) \<Longrightarrow> filter is_card_mutation (sync_card w col pl assign) = []"
  by (simp add: sync_card_def)

lemma send_notification_no_card_mutation:
  "filter is_card_mutation (fst (send_notification w cfg m)) = []"
  by (simp add: send_notification_def split: sum.split)

lemma send_notification_no_error_log:
  "filter is_error_log (fst (send_notification w cfg m)) = []"
  by (simp add: send_notification_def split: sum.split)

lemma send_notification_suppressed:
  "truthy (DRY_RUN_BOUNTY_APPROVAL w) \<Longrightarrow> send_notification w cfg m = ([], Completed)"
  by (simp add: send_notification_def)

lemma send_notification_outcome:
  "snd (send_notification w cfg (compose_message a b c d u)) =
     (if truthy (DRY_RUN_BOUNTY_APPROVAL w) then Completed
      else case slack_notification_room cfg of Inl p \<Rightarrow> TypeError p | Inr r \<Rightarrow> Completed)"
  by (simp add: send_notification_def compose_message_nonempty split: sum.split)

lemma fetch_column_fst_no_card_mutation:
  "filter is_card_mutation (fst (fetch_column w pbc owner repo)) = []"
  by (cases "fetch_column w pbc owner repo") (simp add: fetch_column_no_card_mutation)

lemma fetch_column_fst_no_notification:
  "filter is_notification (fst (fetch_column w pbc owner repo)) = []"
  by (cases "fetch_column w pbc owner repo") (simp add: fetch_column_no_notification)

lemma resolved_no_error_log:
  "resolved w ctx cfg pbc bn cn col \<Longrightarrow>
   filter is_error_log
     (fst (fetch_column w pbc (owner_login (payload ctx)) (repository_name (payload ctx)))) = []"
  by (cases "fetch_column w pbc (owner_login (payload ctx)) (repository_name (payload ctx))")
     (simp add: resolved_def fetch_column_Some_no_error_log)

lemma send_notification_filter:
  "filter is_notification (fst (send_notification w cfg (compose_message a b c d u))) =
     (if truthy (DRY_RUN_BOUNTY_APPROVAL w) then []
      else case slack_notification_room cfg of
             Inl p \<Rightarrow> []
           | Inr r \<Rightarrow> [SendMessage (slackClient w) r (compose_message a b c d u)])"
  by (simp add: send_notification_def compose_message_nonempty split: sum.split)

lemma handler_resolved_notifications:
  assumes "resolved w ctx cfg pbc bn cn col"
  shows "filter is_notification (fst (assignIssueToBountyAwaitingForApproval w ctx assign)) =
     (if truthy (DRY_RUN_BOUNTY_APPROVAL w) then []
      else case slack_notification_room cfg of
             Inl p \<Rightarrow> []
           | Inr r \<Rightarrow>
               [SendMessage (slackClient w) r
                  (compose_message assign
                     (find (\<lambda>l. Some (label_name l) = bounty_label_name pbc)
                        (issue_labels (payload_issue (payload ctx))) \<noteq> None)
                     (Some cn) (Some bn) (issue_html_url (payload_issue (payload ctx))))])"
  by (simp only: handler_resolved [OF assms] fst_conv filter.simps filter_append
      is_notification.simps fetch_column_fst_no_notification sync_card_no_notification
      send_notification_filter append_Nil if_False)

lemma handler_resolved_outcome:
  assumes "resolved w ctx cfg pbc bn cn col"
  shows "snd (assignIssueToBountyAwaitingForApproval w ctx assign) =
     (if truthy (DRY_RUN_BOUNTY_APPROVAL w) then Completed
      else case slack_notification_room cfg of Inl p \<Rightarrow> TypeError p | Inr r \<Rightarrow> Completed)"
  by (simp only: handler_resolved [OF assms] snd_conv send_notification_outcome)

lemma example_room:
  "slack_notification_room example_config = Inr (Some ''status-probot'')"
  by (simp add: slack_notification_room_def example_config_def)

lemma handler_resolved_card_mutations:
  assumes "resolved w ctx cfg pbc bn cn col"
  shows "filter is_card_mutation (fst (assignIssueToBountyAwaitingForApproval w ctx assign)) =
     filter is_card_mutation (sync_card w col (payload ctx) assign)"
  by (simp only: handler_resolved [OF assms] fst_conv filter.simps filter_append
      is_card_mutation.simps fetch_column_fst_no_card_mutation
      send_notification_no_card_mutation append_Nil append_Nil2 if_False)

lemma handler_resolved_error_logs:
  assumes "resolved w ctx cfg pbc bn cn col"
  shows "filter is_error_log (fst (assignIssueToBountyAwaitingForApproval w ctx assign)) =
     filter is_error_log (sync_card w col (payload ctx) assign)"
  by (simp add: handler_resolved [OF assms] resolved_no_error_log [OF assms]
      send_notification_no_error_log)

lemma example_resolved:
  "resolved (example_world dry dryApproval example_boards created cards)
     (example_context ''bounty-awaiting-approval'' ls) example_config example_board_config
     ''Status SOB Swarm'' ''bounty-awaiting-approval''
     \<lparr>column_id = 51, column_name = ''bounty-awaiting-approval''\<rparr>"
  by (simp add: resolved_def ex_defs fetch_column_def)

text \<open>
  Without a \<^verbatim>\<open>slack\<close> section the sample assign still creates its card, then throws
  while reading the channel: nothing is sent and the handler rejects.
\<close>

lemma missing_slack_section_rejects:
  "filter is_card_mutation
     (fst (assignIssueToBountyAwaitingForApproval
        ((example_world None None example_boards
            (Inr \<lparr>card_id = 9, card_url = ''https://api.github.com/projects/columns/cards/9'',
                  card_content_url = ''https://api.github.com/repos/org/proj/issues/42''\<rparr>) [])
           \<lparr>getConfig := Inr (Some (example_config\<lparr>slack := None\<rparr>))\<rparr>)
        (example_context ''bounty-awaiting-approval'' []) True)) =
     [CreateProjectCard 51 ''Issue'' 101]
   \<and> filter is_notification
     (fst (assignIssueToBountyAwaitingForApproval
        ((example_world None None example_boards
            (Inr \<lparr>card_id = 9, card_url = ''https://api.github.com/projects/columns/cards/9'',
                  card_content_url = ''https://api.github.com/repos/org/proj/issues/42''\<rparr>) [])
           \<lparr>getConfig := Inr (Some (example_config\<lparr>slack := None\<rparr>))\<rparr>)
        (example_context ''bounty-awaiting-approval'' []) True)) = []
   \<and> snd (assignIssueToBountyAwaitingForApproval
        ((example_world None None example_boards
            (Inr \<lparr>card_id = 9, card_url = ''https://api.github.com/projects/columns/cards/9'',
                  card_content_url = ''https://api.github.com/repos/org/proj/issues/42''\<rparr>) [])
           \<lparr>getConfig := Inr (Some (example_config\<lparr>slack := None\<rparr>))\<rparr>)
        (example_context ''bounty-awaiting-approval'' []) True) = TypeError ''notification''"
  by (simp add: ex_defs assignIssueToBountyAwaitingForApproval_def fetch_column_def
      sync_card_def send_notification_def slack_notification_room_def compose_message_def)

section \<open>Failure of the create-card call\<close>

text \<open>
  C1, as amended. For a delivery that passes the filter and the board and column lookups,
  with the dry-run flag unset and a configuration that has its
  \<^verbatim>\<open>slack.notification\<close> section: when the remote create-card call fails, the call is made
  once and not retried, the failure is logged at error level with the column id and the
  issue id, and the handler goes on to the notification step. The "Assigned issue to ..."
  message is sent unless the approval dry-run flag is set, and the handler completes.
\<close>

theorem create_card_failure_logged_then_notified:
  assumes "resolved w ctx cfg pbc bn cn col"
    and "\<not> truthy (DRY_RUN w)"
    and "createProjectCard w (column_id col) ''Issue'' (issue_id (payload_issue (payload ctx))) = Inl e"
    and "slack_notification_room cfg = Inr chan"
  shows "filter is_card_mutation (fst (assignIssueToBountyAwaitingForApproval w ctx True)) =
           [CreateProjectCard (column_id col) ''Issue'' (issue_id (payload_issue (payload ctx)))]
       \<and> filter is_error_log (fst (assignIssueToBountyAwaitingForApproval w ctx True)) =
           [Log LogError (''Couldn't create project card for the issue: '' @ err_text e)
              [N (column_id col), N (issue_id (payload_issue (payload ctx)))]]
       \<and> filter is_notification (fst (assignIssueToBountyAwaitingForApproval w ctx True)) =
           (if truthy (DRY_RUN_BOUNTY_APPROVAL w) then []
            else [SendMessage (slackClient w) chan
                    (''Assigned issue to '' @ cn @ '' in '' @ bn @ '' project\<newline>''
                       @ issue_html_url (payload_issue (payload ctx)))])
       \<and> snd (assignIssueToBountyAwaitingForApproval w ctx True) = Completed"
proof -
  have card: "sync_card w col (payload ctx) True =
      [CreateProjectCard (column_id col) ''Issue'' (issue_id (payload_issue (payload ctx))),
       Log LogError (''Couldn't create project card for the issue: '' @ err_text e)
         [N (column_id col), N (issue_id (payload_issue (payload ctx)))]]"
    using assms(2,3) by (simp add: sync_card_def)
  have "filter is_card_mutation (fst (assignIssueToBountyAwaitingForApproval w ctx True)) =
      [CreateProjectCard (column_id col) ''Issue'' (issue_id (payload_issue (payload ctx)))]"
    by (simp add: handler_resolved_card_mutations [OF assms(1)] card)
  moreover have "filter is_error_log (fst (assignIssueToBountyAwaitingForApproval w ctx True)) =
      [Log LogError (''Couldn't create project card for the issue: '' @ err_text e)
         [N (column_id col), N (issue_id (payload_issue (payload ctx)))]]"
    by (simp add: handler_resolved_error_logs [OF assms(1)] card)
  moreover have "filter is_notification (fst (assignIssueToBountyAwaitingForApproval w ctx True)) =
      (if truthy (DRY_RUN_BOUNTY_APPROVAL w) then []
       else [SendMessage (slackClient w) chan
               (''Assigned issue to '' @ cn @ '' in '' @ bn @ '' project\<newline>''
                  @ issue_html_url (payload_issue (payload ctx)))])"
    by (simp add: handler_resolved_notifications [OF assms(1)] assms(4) compose_message_def)
  moreover have "snd (assignIssueToBountyAwaitingForApproval w ctx True) = Completed"
    by (simp add: handler_resolved_outcome [OF assms(1)] assms(4))
  ultimately show ?thesis by simp
qed

text \<open>
  C1 as stated does not hold. In the sample delivery the create-card call fails with
  "HttpError: Not Found", the \<^verbatim>\<open>catch\<close> of lines 132 to 134 logs it and does not return, and
  the "Assigned" message is sent all the same.
\<close>

theorem create_card_failure_counterexample:
  "resolved (example_world None None example_boards (Inl (Err ''HttpError: Not Found'')) [])
     (example_context ''bounty-awaiting-approval'' []) example_config example_board_config
     ''Status SOB Swarm'' ''bounty-awaiting-approval''
     \<lparr>column_id = 51, column_name = ''bounty-awaiting-approval''\<rparr>
   \<and> \<not> truthy (DRY_RUN (example_world None None example_boards
           (Inl (Err ''HttpError: Not Found'')) []))
   \<and> createProjectCard (example_world None None example_boards
        (Inl (Err ''HttpError: Not Found'')) []) 51 ''Issue'' 101 = Inl (Err ''HttpError: Not Found'')
   \<and> slack_notification_room example_config = Inr (Some ''status-probot'')
   \<and> filter is_notification
        (fst (assignIssueToBountyAwaitingForApproval
           (example_world None None example_boards (Inl (Err ''HttpError: Not Found'')) [])
           (example_context ''bounty-awaiting-approval'' []) True)) =
       [SendMessage (Some 1) (Some ''status-probot'')
          ''Assigned issue to bounty-awaiting-approval in Status SOB Swarm project\<newline>https://github.com/org/proj/issues/42'']"
  by (simp add: resolved_def ex_defs assignIssueToBountyAwaitingForApproval_def fetch_column_def
      sync_card_def send_notification_def slack_notification_room_def compose_message_def)

text \<open>The amended statement of C1 on the sample delivery.\<close>

theorem create_card_failure_witness:
  "resolved (example_world None None example_boards (Inl (Err ''HttpError: Not Found'')) [])
     (example_context ''bounty-awaiting-approval'' []) example_config example_board_config
     ''Status SOB Swarm'' ''bounty-awaiting-approval''
     \<lparr>column_id = 51, column_name = ''bounty-awaiting-approval''\<rparr>
   \<and> \<not> truthy (DRY_RUN (example_world None None example_boards
           (Inl (Err ''HttpError: Not Found'')) []))
   \<and> createProjectCard (example_world None None example_boards
        (Inl (Err ''HttpError: Not Found'')) []) 51 ''Issue'' 101 = Inl (Err ''HttpError: Not Found'')
   \<and> slack_notification_room example_config = Inr (Some ''status-probot'')
   \<and> filter is_card_mutation
     (fst (assignIssueToBountyAwaitingForApproval
        (example_world None None example_boards (Inl (Err ''HttpError: Not Found'')) [])
        (example_context ''bounty-awaiting-approval'' []) True)) =
     [CreateProjectCard 51 ''Issue'' 101]
   \<and> filter is_error_log
     (fst (assignIssueToBountyAwaitingForApproval
        (example_world None None example_boards (Inl (Err ''HttpError: Not Found'')) [])
        (example_context ''bounty-awaiting-approval'' []) True)) =
     [Log LogError ''Couldn't create project card for the issue: HttpError: Not Found''
        [N 51, N 101]]
   \<and> filter is_notification
     (fst (assignIssueToBountyAwaitingForApproval
        (example_world None None example_boards (Inl (Err ''HttpError: Not Found'')) [])
        (example_context ''bounty-awaiting-approval'' []) True)) =
     [SendMessage (Some 1) (Some ''status-probot'')
        ''Assigned issue to bounty-awaiting-approval in Status SOB Swarm project\<newline>https://github.com/org/proj/issues/42'']
   \<and> snd (assignIssueToBountyAwaitingForApproval
        (example_world None None example_boards (Inl (Err ''HttpError: Not Found'')) [])
        (example_context ''bounty-awaiting-approval'' []) True) = Completed"
  using create_card_failure_logged_then_notified
    [OF example_resolved [of None None "Inl (Err ''HttpError: Not Found'')" "[]" "[]"] _ _
        example_room, of "Err ''HttpError: Not Found''"]
    example_room
    example_resolved [of None None "Inl (Err ''HttpError: Not Found'')" "[]" "[]"]
  by (simp add: ex_defs)


section \<open>The approval dry-run flag\<close>

text \<open>
  C2, as amended. When \<^verbatim>\<open>DRY_RUN_BOUNTY_APPROVAL\<close> is set, the guard of line 160 keeps
  every message back: no notification is sent for any delivery, be it an assign or an
  unassign, with or without the bounty label on the issue.
\<close>

theorem approval_dry_run_suppresses_every_message:
  "truthy (DRY_RUN_BOUNTY_APPROVAL w) \<Longrightarrow>
   filter is_notification (fst (assignIssueToBountyAwaitingForApproval w ctx assign)) = []"
  by (auto simp add: assignIssueToBountyAwaitingForApproval_def Let_def send_notification_def
      sync_card_no_notification
      split: sum.split option.split prod.split dest: fetch_column_no_notification)

text \<open>
  C2 as stated does not hold. With the flag set to "1", the assign of the sample
  delivery creates its card and sends no message.
\<close>

theorem approval_dry_run_counterexample:
  "truthy (DRY_RUN_BOUNTY_APPROVAL (example_world None (Some ''1'') example_boards
      (Inr \<lparr>card_id = 9, card_url = ''https://api.github.com/projects/columns/cards/9'',
            card_content_url = ''https://api.github.com/repos/org/proj/issues/42''\<rparr>) []))
   \<and> filter is_card_mutation
        (fst (assignIssueToBountyAwaitingForApproval
           (example_world None (Some ''1'') example_boards
              (Inr \<lparr>card_id = 9, card_url = ''https://api.github.com/projects/columns/cards/9'',
                    card_content_url = ''https://api.github.com/repos/org/proj/issues/42''\<rparr>) [])
           (example_context ''bounty-awaiting-approval'' []) True)) =
       [CreateProjectCard 51 ''Issue'' 101]
   \<and> filter is_notification
        (fst (assignIssueToBountyAwaitingForApproval
           (example_world None (Some ''1'') example_boards
              (Inr \<lparr>card_id = 9, card_url = ''https://api.github.com/projects/columns/cards/9'',
                    card_content_url = ''https://api.github.com/repos/org/proj/issues/42''\<rparr>) [])
           (example_context ''bounty-awaiting-approval'' []) True)) = []"
  by (simp add: ex_defs assignIssueToBountyAwaitingForApproval_def fetch_column_def
      sync_card_def send_notification_def compose_message_def)

text \<open>The amended statement of C2 on an unassign of the sample delivery.\<close>

theorem approval_dry_run_witness:
  "truthy (DRY_RUN_BOUNTY_APPROVAL (example_world None (Some ''1'') example_boards
      (Inl (Err ''HttpError: Not Found'')) []))
   \<and> filter is_notification
        (fst (assignIssueToBountyAwaitingForApproval
           (example_world None (Some ''1'') example_boards (Inl (Err ''HttpError: Not Found'')) [])
           (example_context ''bounty-awaiting-approval'' []) False)) = []"
  using approval_dry_run_suppresses_every_message
    [of "example_world None (Some ''1'') example_boards (Inl (Err ''HttpError: Not Found'')) []"
        "example_context ''bounty-awaiting-approval'' []" False]
  by (simp add: ex_defs)

section \<open>Filtered deliveries\<close>

text \<open>
  C3. A delivery caused by the bot itself, and a delivery whose changed label is not the
  configured watched label, make no call to the project board (no board fetch, no column
  fetch, no card created, listed or deleted) and send no notification.
\<close>

theorem filtered_events_touch_nothing:
  assumes "isBot ctx \<or>
     (getConfig w = Inr (Some cfg) \<and> bounty_project_board cfg = Some pbc \<and>
      awaiting_approval_label_name pbc \<noteq> Some (label_name (payload_label (payload ctx))))"
  shows "filter (\<lambda>e. is_board_call e \<or> is_notification e) (fst (robot_on w ev ctx)) = []"
  using assms
  by (cases ev) (auto simp add: assignIssueToBountyAwaitingForApproval_def Let_def)

text \<open>
  C3 on a bot-originated labeling with the watched label, and on an unlabeling of the
  unrelated label "bug".
\<close>

theorem filtered_events_witness:
  "isBot ((example_context ''bounty-awaiting-approval'' [])\<lparr>isBot := True\<rparr>)
   \<and> filter (\<lambda>e. is_board_call e \<or> is_notification e)
        (fst (robot_on (example_world None None example_boards (Inl (Err ''unused'')) [])
           IssuesLabeled ((example_context ''bounty-awaiting-approval'' [])\<lparr>isBot := True\<rparr>))) = []
   \<and> awaiting_approval_label_name example_board_config \<noteq>
        Some (label_name (payload_label (payload (example_context ''bug'' []))))
   \<and> filter (\<lambda>e. is_board_call e \<or> is_notification e)
        (fst (robot_on (example_world None None example_boards (Inl (Err ''unused'')) [])
           IssuesUnlabeled (example_context ''bug'' []))) = []"
  using filtered_events_touch_nothing
    [of "(example_context ''bounty-awaiting-approval'' [])\<lparr>isBot := True\<rparr>"
        "example_world None None example_boards (Inl (Err ''unused'')) []"
        example_config example_board_config IssuesLabeled]
    filtered_events_touch_nothing
    [of "example_context ''bug'' []"
        "example_world None None example_boards (Inl (Err ''unused'')) []"
        example_config example_board_config IssuesUnlabeled]
  by (simp add: ex_defs)

section \<open>The three messages\<close>

text \<open>
  C4. A delivery that reaches the notifier (the approval dry-run flag unset and the
  channel readable from the configuration's \<^verbatim>\<open>slack.notification\<close> section, so that the
  message is handed to the chat helper) sends exactly one message: for an assign,
  "Assigned issue to {columnName} in {boardName} project", a newline and the issue's
  \<^verbatim>\<open>html_url\<close>; for an unassign of an issue that carries the configured bounty label,
  "{html_url} has been approved as an official bounty!"; for any other unassign,
  "Unassigned issue from {columnName} in {boardName} project", a newline and the
  \<^verbatim>\<open>html_url\<close>.
\<close>

theorem notification_messages:
  assumes "resolved w ctx cfg pbc bn cn col"
    and "\<not> truthy (DRY_RUN_BOUNTY_APPROVAL w)"
    and "slack_notification_room cfg = Inr chan"
  shows "filter is_notification (fst (assignIssueToBountyAwaitingForApproval w ctx assign)) =
     [SendMessage (slackClient w) chan
        (if assign then
           ''Assigned issue to '' @ cn @ '' in '' @ bn @ '' project\<newline>''
             @ issue_html_url (payload_issue (payload ctx))
         else if \<exists>l \<in> set (issue_labels (payload_issue (payload ctx))).
                   Some (label_name l) = bounty_label_name pbc then
           issue_html_url (payload_issue (payload ctx)) @ '' has been approved as an official bounty!''
         else
           ''Unassigned issue from '' @ cn @ '' in '' @ bn @ '' project\<newline>''
             @ issue_html_url (payload_issue (payload ctx)))]"
  using assms(2)
  by (auto simp add: handler_resolved_notifications [OF assms(1)] assms(3) compose_message_def
      find_None_iff)

text \<open>C4 on the sample delivery: an assign, and an unassign with and without the bounty label.\<close>

theorem notification_messages_witness:
  "filter is_notification
     (fst (assignIssueToBountyAwaitingForApproval
        (example_world None None example_boards (Inl (Err ''HttpError: Not Found'')) [])
        (example_context ''bounty-awaiting-approval'' []) True)) =
     [SendMessage (Some 1) (Some ''status-probot'')
        ''Assigned issue to bounty-awaiting-approval in Status SOB Swarm project\<newline>https://github.com/org/proj/issues/42'']
   \<and> filter is_notification
     (fst (assignIssueToBountyAwaitingForApproval
        (example_world None None example_boards (Inl (Err ''HttpError: Not Found'')) [])
        (example_context ''bounty-awaiting-approval'' [\<lparr>label_name = ''bounty''\<rparr>]) False)) =
     [SendMessage (Some 1) (Some ''status-probot'')
        ''https://github.com/org/proj/issues/42 has been approved as an official bounty!'']
   \<and> filter is_notification
     (fst (assignIssueToBountyAwaitingForApproval
        (example_world None None example_boards (Inl (Err ''HttpError: Not Found'')) [])
        (example_context ''bounty-awaiting-approval'' [\<lparr>label_name = ''bug''\<rparr>]) False)) =
     [SendMessage (Some 1) (Some ''status-probot'')
        ''Unassigned issue from bounty-awaiting-approval in Status SOB Swarm project\<newline>https://github.com/org/proj/issues/42'']"
  using notification_messages
    [OF example_resolved [of None None "Inl (Err ''HttpError: Not Found'')" "[]" "[]"] _
        example_room, of True]
    notification_messages
    [OF example_resolved [of None None "Inl (Err ''HttpError: Not Found'')" "[]"
        "[\<lparr>label_name = ''bounty''\<rparr>]"] _ example_room, of False]
    notification_messages
    [OF example_resolved [of None None "Inl (Err ''HttpError: Not Found'')" "[]"
        "[\<lparr>label_name = ''bug''\<rparr>]"] _ example_room, of False]
  by (simp add: ex_defs)


section \<open>First match wins\<close>

lemma find_first_match:
  "\<forall>y \<in> set xs. \<not> P y \<Longrightarrow> P x \<Longrightarrow> find P (xs @ x # ys) = Some x"
  by (induction xs) simp_all

text \<open>
  C5. When the board list holds the configured name at several places, the lookup takes
  the first one in list order: the columns of that board are fetched and those of no
  other board, whatever that fetch returns. When the fetched columns hold the configured
  column name, the lookup likewise takes the first column of that name.
\<close>

theorem resolver_takes_first_match:
  assumes "board_name pbc = Some bn"
    and "getOrgProjects w owner ''open'' = Inr (bs @ b # bs')"
    and "\<forall>p \<in> set bs. project_name p \<noteq> bn"
    and "project_name b = bn"
  shows "filter is_column_fetch (fst (fetch_column w pbc owner repo)) =
           [GetProjectColumns (project_id b)]
       \<and> (awaiting_approval_column_name pbc = Some cn \<and>
          getProjectColumns w (project_id b) = Inr (cs @ c # cs') \<and>
          (\<forall>d \<in> set cs. column_name d \<noteq> cn) \<and> column_name c = cn \<longrightarrow>
            snd (fetch_column w pbc owner repo) = Some c)"
proof -
  have b: "find (\<lambda>p. Some (project_name p) = board_name pbc) (bs @ b # bs') = Some b"
    using assms(1,3,4) by (intro find_first_match) simp_all
  have fetch: "filter is_column_fetch (fst (fetch_column w pbc owner repo)) =
      [GetProjectColumns (project_id b)]"
    unfolding fetch_column_def Let_def
    by (simp add: assms(2) b split: sum.split option.split)
  have col: "snd (fetch_column w pbc owner repo) = Some c"
    if "awaiting_approval_column_name pbc = Some cn"
      and "getProjectColumns w (project_id b) = Inr (cs @ c # cs')"
      and "\<forall>d \<in> set cs. column_name d \<noteq> cn" and "column_name c = cn"
  proof -
    have "find (\<lambda>d. Some (column_name d) = awaiting_approval_column_name pbc) (cs @ c # cs') = Some c"
      using that(1,3,4) by (intro find_first_match) simp_all
    then show ?thesis
      unfolding fetch_column_def Let_def by (simp add: assms(2) that(2) b)
  qed
  from fetch col show ?thesis by blast
qed

text \<open>
  C5 on the sample board list, where boards 5 and 6 share the configured name, as do
  columns 51 and 52 of board 5; and on the board where only the second board of the
  configured name has the column: the columns of board 5 alone are fetched.
\<close>

theorem resolver_takes_first_match_witness:
  "filter is_column_fetch
     (fst (fetch_column (example_world None None example_boards (Inl (Err ''unused'')) [])
        example_board_config ''org'' ''proj'')) = [GetProjectColumns 5]
   \<and> snd (fetch_column (example_world None None example_boards (Inl (Err ''unused'')) [])
          example_board_config ''org'' ''proj'') =
     Some \<lparr>column_id = 51, column_name = ''bounty-awaiting-approval''\<rparr>
   \<and> filter is_column_fetch
     (fst (fetch_column example_world_column_on_second_board
        example_board_config ''org'' ''proj'')) = [GetProjectColumns 5]"
  using resolver_takes_first_match
    [of example_board_config "''Status SOB Swarm''"
        "example_world None None example_boards (Inl (Err ''unused'')) []" "''org''"
        "[\<lparr>project_id = 3, project_name = ''Roadmap''\<rparr>]"
        "\<lparr>project_id = 5, project_name = ''Status SOB Swarm''\<rparr>"
        "[\<lparr>project_id = 6, project_name = ''Status SOB Swarm''\<rparr>]"
        "''proj''" "''bounty-awaiting-approval''"
        "[\<lparr>column_id = 50, column_name = ''backlog''\<rparr>]"
        "\<lparr>column_id = 51, column_name = ''bounty-awaiting-approval''\<rparr>"
        "[\<lparr>column_id = 52, column_name = ''bounty-awaiting-approval''\<rparr>]"]
    resolver_takes_first_match
    [of example_board_config "''Status SOB Swarm''"
        example_world_column_on_second_board "''org''"
        "[\<lparr>project_id = 3, project_name = ''Roadmap''\<rparr>]"
        "\<lparr>project_id = 5, project_name = ''Status SOB Swarm''\<rparr>"
        "[\<lparr>project_id = 6, project_name = ''Status SOB Swarm''\<rparr>]"
        "''proj''"]
  by (simp add: ex_defs example_world_column_on_second_board_def)

section \<open>No board of the configured name\<close>

text \<open>
  C6. When no board of the fetched list has the configured name, the only call to the
  project board is the board fetch itself: no column fetch, no card call. No
  notification is sent, the miss is logged as an error, and the handler completes.
\<close>

theorem no_board_aborts_before_columns:
  assumes "getConfig w = Inr (Some cfg)"
    and "bounty_project_board cfg = Some pbc"
    and "awaiting_approval_label_name pbc = Some (label_name (payload_label (payload ctx)))"
    and "getOrgProjects w (owner_login (payload ctx)) ''open'' = Inr boards"
    and "\<forall>b \<in> set boards. Some (project_name b) \<noteq> board_name pbc"
  shows "filter is_board_call (fst (assignIssueToBountyAwaitingForApproval w ctx assign)) =
           [GetOrgProjects (owner_login (payload ctx)) ''open'']
       \<and> filter is_notification (fst (assignIssueToBountyAwaitingForApproval w ctx assign)) = []
       \<and> filter is_error_log (fst (assignIssueToBountyAwaitingForApproval w ctx assign)) =
           [Log LogError (''Couldn't find project '' @ tmpl (board_name pbc) @ '' in ''
              @ owner_login (payload ctx) @ '' org'') []]
       \<and> snd (assignIssueToBountyAwaitingForApproval w ctx assign) = Completed"
proof -
  have "find (\<lambda>p. Some (project_name p) = board_name pbc) boards = None"
    using assms(5) by (simp add: find_None_iff)
  then have "fetch_column w pbc (owner_login (payload ctx)) (repository_name (payload ctx)) =
      ([GetOrgProjects (owner_login (payload ctx)) ''open'',
        Log LogError (''Couldn't find project '' @ tmpl (board_name pbc) @ '' in ''
          @ owner_login (payload ctx) @ '' org'') []], None)"
    unfolding fetch_column_def Let_def by (simp add: assms(4))
  then show ?thesis
    unfolding assignIssueToBountyAwaitingForApproval_def Let_def
    by (simp add: assms(1,2,3))
qed

text \<open>C6 on the sample delivery with a board list that holds only "Roadmap".\<close>

theorem no_board_witness:
  "filter is_board_call
     (fst (assignIssueToBountyAwaitingForApproval
        (example_world None None [\<lparr>project_id = 3, project_name = ''Roadmap''\<rparr>]
           (Inl (Err ''unused'')) [])
        (example_context ''bounty-awaiting-approval'' []) True)) = [GetOrgProjects ''org'' ''open'']
   \<and> filter is_notification
     (fst (assignIssueToBountyAwaitingForApproval
        (example_world None None [\<lparr>project_id = 3, project_name = ''Roadmap''\<rparr>]
           (Inl (Err ''unused'')) [])
        (example_context ''bounty-awaiting-approval'' []) True)) = []
   \<and> snd (assignIssueToBountyAwaitingForApproval
        (example_world None None [\<lparr>project_id = 3, project_name = ''Roadmap''\<rparr>]
           (Inl (Err ''unused'')) [])
        (example_context ''bounty-awaiting-approval'' []) True) = Completed"
  using no_board_aborts_before_columns
    [of "example_world None None [\<lparr>project_id = 3, project_name = ''Roadmap''\<rparr>]
           (Inl (Err ''unused'')) []"
        example_config example_board_config "example_context ''bounty-awaiting-approval'' []"
        "[\<lparr>project_id = 3, project_name = ''Roadmap''\<rparr>]" True]
  by (simp add: ex_defs)

section \<open>Dry run\<close>

text \<open>
  C7. While \<^verbatim>\<open>DRY_RUN\<close> is set, no delivery creates or deletes a card; a delivery that
  reaches the card step logs "Would have created card for issue" (assign) or "Would have
  deleted card for issue" (unassign) with the column id and the issue id instead.
\<close>

theorem dry_run_logs_instead_of_card_calls:
  assumes "truthy (DRY_RUN w)"
  shows "filter is_card_mutation (fst (assignIssueToBountyAwaitingForApproval w ctx assign)) = []
       \<and> (resolved w ctx cfg pbc bn cn col \<longrightarrow>
            Log LogInfo
              (if assign then ''Would have created card for issue''
               else ''Would have deleted card for issue'')
              [N (column_id col), N (issue_id (payload_issue (payload ctx)))]
            \<in> set (fst (assignIssueToBountyAwaitingForApproval w ctx assign)))"
proof -
  have "filter is_card_mutation (fst (assignIssueToBountyAwaitingForApproval w ctx assign)) = []"
    by (auto simp add: assignIssueToBountyAwaitingForApproval_def Let_def
        sync_card_dry_run [OF assms] send_notification_no_card_mutation
        split: sum.split option.split prod.split dest: fetch_column_no_card_mutation)
  moreover have "sync_card w col (payload ctx) assign =
      [Log LogInfo
         (if assign then ''Would have created card for issue''
          else ''Would have deleted card for issue'')
         [N (column_id col), N (issue_id (payload_issue (payload ctx)))]]"
    using assms by (simp add: sync_card_def)
  ultimately show ?thesis
    by (auto simp add: handler_resolved)
qed

text \<open>C7 on an unassign of the sample delivery with \<^verbatim>\<open>DRY_RUN=true\<close>.\<close>

theorem dry_run_witness:
  "truthy (DRY_RUN (example_world (Some ''true'') None example_boards (Inl (Err ''unused'')) []))
   \<and> filter is_card_mutation
     (fst (assignIssueToBountyAwaitingForApproval
        (example_world (Some ''true'') None example_boards (Inl (Err ''unused'')) [])
        (example_context ''bounty-awaiting-approval'' []) False)) = []
   \<and> Log LogInfo ''Would have deleted card for issue'' [N 51, N 101]
     \<in> set (fst (assignIssueToBountyAwaitingForApproval
        (example_world (Some ''true'') None example_boards (Inl (Err ''unused'')) [])
        (example_context ''bounty-awaiting-approval'' []) False))"
  using dry_run_logs_instead_of_card_calls
    [of "example_world (Some ''true'') None example_boards (Inl (Err ''unused'')) []"
        "example_context ''bounty-awaiting-approval'' []" False
        example_config example_board_config "''Status SOB Swarm''" "''bounty-awaiting-approval''"
        "\<lparr>column_id = 51, column_name = ''bounty-awaiting-approval''\<rparr>"]
    example_resolved [of "Some ''true''" None "Inl (Err ''unused'')" "[]" "[]"]
  by (simp add: ex_defs)

section \<open>Unassign without a card\<close>

text \<open>
  C8. For an unassign that reaches the card step with the dry-run flag unset: when no
  card of the column refers to the issue's URL, no card is deleted (nor created), no
  error is logged, and the card step throws nothing. The handler goes on to the
  notification step and ends as that step does: it completes, unless the message is to be
  sent and reading the channel from the configuration throws at line 162.
\<close>

theorem unassign_without_card_is_noop:
  assumes "resolved w ctx cfg pbc bn cn col"
    and "\<not> truthy (DRY_RUN w)"
    and "listProjectCards w (column_id col) = Inr cards"
    and "\<forall>c \<in> set cards. card_content_url c \<noteq> issue_url (payload_issue (payload ctx))"
  shows "filter is_card_mutation (fst (assignIssueToBountyAwaitingForApproval w ctx False)) = []
       \<and> filter is_error_log (fst (assignIssueToBountyAwaitingForApproval w ctx False)) = []
       \<and> snd (assignIssueToBountyAwaitingForApproval w ctx False) =
           (if truthy (DRY_RUN_BOUNTY_APPROVAL w) then Completed
            else case slack_notification_room cfg of
                   Inl p \<Rightarrow> TypeError p
                 | Inr chan \<Rightarrow> Completed)"
proof -
  have "find (\<lambda>c. card_content_url c = issue_url (payload_issue (payload ctx))) cards = None"
    using assms(4) by (simp add: find_None_iff)
  then have "sync_card w col (payload ctx) False = [ListProjectCards (column_id col)]"
    using assms(2,3) by (simp add: sync_card_def getProjectCardForIssue_def)
  then have "filter is_card_mutation (fst (assignIssueToBountyAwaitingForApproval w ctx False)) = []"
    and "filter is_error_log (fst (assignIssueToBountyAwaitingForApproval w ctx False)) = []"
    by (simp_all add: handler_resolved_card_mutations [OF assms(1)]
        handler_resolved_error_logs [OF assms(1)])
  then show ?thesis
    by (simp only: handler_resolved_outcome [OF assms(1)] simp_thms)
qed

text \<open>C8 on the sample delivery, the column holding one card of another issue.\<close>

theorem unassign_without_card_witness:
  "resolved
     (example_world None None example_boards (Inl (Err ''unused''))
        [\<lparr>card_id = 8, card_url = ''https://api.github.com/projects/columns/cards/8'',
          card_content_url = ''https://api.github.com/repos/org/proj/issues/7''\<rparr>])
     (example_context ''bounty-awaiting-approval'' []) example_config example_board_config
     ''Status SOB Swarm'' ''bounty-awaiting-approval''
     \<lparr>column_id = 51, column_name = ''bounty-awaiting-approval''\<rparr>
   \<and> listProjectCards
     (example_world None None example_boards (Inl (Err ''unused''))
        [\<lparr>card_id = 8, card_url = ''https://api.github.com/projects/columns/cards/8'',
          card_content_url = ''https://api.github.com/repos/org/proj/issues/7''\<rparr>]) 51 =
     Inr [\<lparr>card_id = 8, card_url = ''https://api.github.com/projects/columns/cards/8'',
           card_content_url = ''https://api.github.com/repos/org/proj/issues/7''\<rparr>]
   \<and> filter is_card_mutation
     (fst (assignIssueToBountyAwaitingForApproval
        (example_world None None example_boards (Inl (Err ''unused''))
           [\<lparr>card_id = 8, card_url = ''https://api.github.com/projects/columns/cards/8'',
             card_content_url = ''https://api.github.com/repos/org/proj/issues/7''\<rparr>])
        (example_context ''bounty-awaiting-approval'' []) False)) = []
   \<and> filter is_error_log
     (fst (assignIssueToBountyAwaitingForApproval
        (example_world None None example_boards (Inl (Err ''unused''))
           [\<lparr>card_id = 8, card_url = ''https://api.github.com/projects/columns/cards/8'',
             card_content_url = ''https://api.github.com/repos/org/proj/issues/7''\<rparr>])
        (example_context ''bounty-awaiting-approval'' []) False)) = []
   \<and> snd (assignIssueToBountyAwaitingForApproval
        (example_world None None example_boards (Inl (Err ''unused''))
           [\<lparr>card_id = 8, card_url = ''https://api.github.com/projects/columns/cards/8'',
             card_content_url = ''https://api.github.com/repos/org/proj/issues/7''\<rparr>])
        (example_context ''bounty-awaiting-approval'' []) False) = Completed"
  using unassign_without_card_is_noop
    [OF example_resolved [of None None "Inl (Err ''unused'')"
          "[\<lparr>card_id = 8, card_url = ''https://api.github.com/projects/columns/cards/8'',
             card_content_url = ''https://api.github.com/repos/org/proj/issues/7''\<rparr>]" "[]"],
     of "[\<lparr>card_id = 8, card_url = ''https://api.github.com/projects/columns/cards/8'',
             card_content_url = ''https://api.github.com/repos/org/proj/issues/7''\<rparr>]"]
    example_resolved [of None None "Inl (Err ''unused'')"
          "[\<lparr>card_id = 8, card_url = ''https://api.github.com/projects/columns/cards/8'',
             card_content_url = ''https://api.github.com/repos/org/proj/issues/7''\<rparr>]" "[]"]
    example_room
  by (simp add: ex_defs)

section \<open>Dry run and the notification\<close>

text \<open>
  C9. A delivery that reaches the card step with \<^verbatim>\<open>DRY_RUN\<close> set and
  \<^verbatim>\<open>DRY_RUN_BOUNTY_APPROVAL\<close> unset, under a configuration whose \<^verbatim>\<open>slack.notification\<close>
  section gives the channel, creates and deletes no card and still sends its composed
  message to that channel.
\<close>

theorem dry_run_still_notifies:
  assumes "resolved w ctx cfg pbc bn cn col"
    and "truthy (DRY_RUN w)"
    and "\<not> truthy (DRY_RUN_BOUNTY_APPROVAL w)"
    and "slack_notification_room cfg = Inr chan"
  shows "filter is_card_mutation (fst (assignIssueToBountyAwaitingForApproval w ctx assign)) = []
       \<and> filter is_notification (fst (assignIssueToBountyAwaitingForApproval w ctx assign)) =
           [SendMessage (slackClient w) chan
              (compose_message assign
                 (find (\<lambda>l. Some (label_name l) = bounty_label_name pbc)
                    (issue_labels (payload_issue (payload ctx))) \<noteq> None)
                 (Some cn) (Some bn) (issue_html_url (payload_issue (payload ctx))))]"
  using assms(3)
  by (simp add: handler_resolved_card_mutations [OF assms(1)] sync_card_dry_run [OF assms(2)]
      handler_resolved_notifications [OF assms(1)] assms(4))

text \<open>C9 on an assign of the sample delivery with \<^verbatim>\<open>DRY_RUN=1\<close>.\<close>

theorem dry_run_still_notifies_witness:
  "truthy (DRY_RUN (example_world (Some ''1'') None example_boards (Inl (Err ''unused'')) []))
   \<and> \<not> truthy (DRY_RUN_BOUNTY_APPROVAL
        (example_world (Some ''1'') None example_boards (Inl (Err ''unused'')) []))
   \<and> filter is_notification
     (fst (assignIssueToBountyAwaitingForApproval
        (example_world (Some ''1'') None example_boards (Inl (Err ''unused'')) [])
        (example_context ''bounty-awaiting-approval'' []) True)) =
     [SendMessage (Some 1) (Some ''status-probot'')
        ''Assigned issue to bounty-awaiting-approval in Status SOB Swarm project\<newline>https://github.com/org/proj/issues/42'']"
  using dry_run_still_notifies
    [OF example_resolved [of "Some ''1''" None "Inl (Err ''unused'')" "[]" "[]"] _ _
        example_room, of True]
  by (simp add: ex_defs compose_message_def)

section \<open>The assign path and the issue's labels\<close>

text \<open>
  C10. Two assign deliveries that differ only in the labels on the issue, hence also two
  that differ only in whether the bounty label is among them, have the same effects, the
  composed notification included.
\<close>

theorem assign_ignores_issue_labels:
  "assignIssueToBountyAwaitingForApproval w (with_issue_labels ctx ls) True =
   assignIssueToBountyAwaitingForApproval w (with_issue_labels ctx ls') True"
  by (simp add: assignIssueToBountyAwaitingForApproval_def Let_def with_issue_labels_def
      compose_message_def sync_card_def
      split: sum.split option.split prod.split)

end
